theory Spec2Isabelle
  imports Complex_Main
begin

section \<open>Python values and exceptions\<close>

text \<open>
  The values that travel through the MQTT client module are the ones a decoded JSON
  document is made of, plus objects of other kinds (modules, classes), which only show up
  as the values of module-level names. A dictionary is an association list in insertion
  order with string keys; a float is idealised as a rational number (rounding, infinities
  and NaN of IEEE doubles are outside the model). Characters are code points below 256.
\<close>

datatype pyval =
    VNone
  | VBool bool
  | VInt int
  | VFloat rat
  | VStr string
  | VList "pyval list"
  | VDict "(string \<times> pyval) list"
  | VObj string

datatype py_error =
    NameError string
  | AttributeError string
  | UnboundLocalError string
  | KeyError pyval
  | IndexError
  | TypeError
  | ZeroDivisionError
  | RuntimeError int
  | QueueEmpty
  | ConnectFailed

text \<open>Truth value testing, as \<^verbatim>\<open>not feed\<close> and \<^verbatim>\<open>val or 0\<close> use it.\<close>

fun truthy :: "pyval \<Rightarrow> bool" where
  "truthy VNone = False"
| "truthy (VBool b) = b"
| "truthy (VInt i) = (i \<noteq> 0)"
| "truthy (VFloat r) = (r \<noteq> 0)"
| "truthy (VStr s) = (s \<noteq> [])"
| "truthy (VList xs) = (xs \<noteq> [])"
| "truthy (VDict kvs) = (kvs \<noteq> [])"
| "truthy (VObj n) = True"

text \<open>\<^verbatim>\<open>type(x) is dict\<close>\<close>

fun is_dict :: "pyval \<Rightarrow> bool" where
  "is_dict (VDict kvs) = True"
| "is_dict v = False"

text \<open>An integer subscript on a sequence; below zero it is taken from the end.\<close>

definition seq_index :: "'a list \<Rightarrow> int \<Rightarrow> py_error + 'a" where
  "seq_index xs i =
     (if 0 \<le> i \<and> i < int (length xs) then Inr (xs ! nat i)
      else if i < 0 \<and> - int (length xs) \<le> i then Inr (xs ! nat (int (length xs) + i))
      else Inl IndexError)"

text \<open>Subscription \<^verbatim>\<open>container[key]\<close>.\<close>

fun py_getitem :: "pyval \<Rightarrow> pyval \<Rightarrow> py_error + pyval" where
  "py_getitem (VDict kvs) key =
     (case key of
        VStr k \<Rightarrow> (case map_of kvs k of None \<Rightarrow> Inl (KeyError key) | Some v \<Rightarrow> Inr v)
      | VList xs \<Rightarrow> Inl TypeError
      | VDict d \<Rightarrow> Inl TypeError
      | _ \<Rightarrow> Inl (KeyError key))"
| "py_getitem (VList xs) key =
     (case key of
        VInt i \<Rightarrow> seq_index xs i
      | VBool b \<Rightarrow> seq_index xs (if b then 1 else 0)
      | _ \<Rightarrow> Inl TypeError)"
| "py_getitem (VStr s) key =
     (case key of
        VInt i \<Rightarrow> map_sum id (\<lambda>c. VStr [c]) (seq_index s i)
      | VBool b \<Rightarrow> map_sum id (\<lambda>c. VStr [c]) (seq_index s (if b then 1 else 0))
      | _ \<Rightarrow> Inl TypeError)"
| "py_getitem v key = Inl TypeError"

text \<open>The items a \<^verbatim>\<open>for\<close> loop visits: a dictionary yields its keys.\<close>

fun py_iter :: "pyval \<Rightarrow> py_error + pyval list" where
  "py_iter (VList xs) = Inr xs"
| "py_iter (VDict kvs) = Inr (map (\<lambda>kv. VStr (fst kv)) kvs)"
| "py_iter (VStr s) = Inr (map (\<lambda>c. VStr [c]) s)"
| "py_iter v = Inl TypeError"

fun py_len :: "pyval \<Rightarrow> py_error + nat" where
  "py_len (VList xs) = Inr (length xs)"
| "py_len (VDict kvs) = Inr (length kvs)"
| "py_len (VStr s) = Inr (length s)"
| "py_len v = Inl TypeError"

text \<open>\<^verbatim>\<open>str.upper\<close> on the letters a to z.\<close>

definition upper_char :: "char \<Rightarrow> char" where
  "upper_char c =
     (case map_of (zip ''abcdefghijklmnopqrstuvwxyz'' ''ABCDEFGHIJKLMNOPQRSTUVWXYZ'') c of
        None \<Rightarrow> c
      | Some u \<Rightarrow> u)"

definition upper :: "string \<Rightarrow> string" where
  "upper s = map upper_char s"

section \<open>The MQTT client module\<close>

subsection \<open>The instance and what it does to the outside\<close>

text \<open>
  A call on the paho client \<^verbatim>\<open>self._client\<close> is recorded, in order, in the field
  \<open>p_client\<close>. The topic \<^verbatim>\<open>'{0}/feeds/{1}'.format(self._username, feed)\<close> is kept as
  its two arguments.
\<close>

datatype feed_path = FeedPath string pyval

datatype client_call =
    UsernamePwSet string string
  | Connect string int int
  | Disconnect
  | Subscribe feed_path
  | Publish feed_path pyval
  | Loop rat

datatype level = DEBUG | INFO | ERROR | STDOUT

datatype log_arg = AErr py_error | AStr string | AVal pyval | AInt int

type_synonym log_entry = "level \<times> string \<times> log_arg list"

text \<open>
  A message of the inbound queue. The class of the messages is not part of the sources
  read here: \<open>stringify\<close> is what the method \<^verbatim>\<open>message.stringify()\<close> returns.
\<close>

record message =
  topic :: string
  extended_data :: pyval
  stringify :: pyval

record base_config =
  ss_version :: string

record module_config =
  MqttKeepAlive :: int
  MqttFeedName :: string
  MqttUsername :: string
  MqttKey :: string
  MqttHost :: string
  MqttPort :: int
  MqttPublishJson :: bool
  MinSimpleSensorVersion :: string

text \<open>
  The instance. An attribute \<^verbatim>\<open>self._x\<close> is the field \<open>p_x\<close>. The attributes
  \<^verbatim>\<open>_publishFaceData\<close> and \<^verbatim>\<open>exit\<close> are not assigned by
  \<^verbatim>\<open>__init__\<close>: \<open>None\<close> says that the instance has no such attribute. \<open>log\<close>
  collects what is sent to the logger and to standard output, \<open>slept\<close> adds up the
  seconds spent in \<^verbatim>\<open>time.sleep\<close>, \<open>module_version\<close> is \<^verbatim>\<open>__version__\<close>.
\<close>

record state =
  config :: base_config
  moduleConfig :: module_config
  module_version :: string
  alive :: bool
  exit_attr :: "bool option"
  inQueue :: "message option list"
  p_keepAlive :: int
  p_feedName :: string
  p_username :: string
  p_key :: string
  p_host :: string
  p_port :: int
  p_publishJson :: bool
  p_publishFaceData :: "bool option"
  mqttConnected :: bool
  p_client :: "client_call list"
  log :: "log_entry list"
  slept :: rat

definition logger :: "level \<Rightarrow> string \<Rightarrow> log_arg list \<Rightarrow> state \<Rightarrow> state" where
  "logger lv fmt args s = s\<lparr>log := log s @ [(lv, fmt, args)]\<rparr>"

definition client :: "client_call \<Rightarrow> state \<Rightarrow> state" where
  "client c s = s\<lparr>p_client := p_client s @ [c]\<rparr>"

definition time_sleep :: "rat \<Rightarrow> state \<Rightarrow> state" where
  "time_sleep secs s = s\<lparr>slept := slept s + secs\<rparr>"

definition init :: "base_config \<Rightarrow> module_config \<Rightarrow> string \<Rightarrow> message option list \<Rightarrow> state" where
  "init baseConfig mc version pInBoundEventQueue =
     \<lparr>config = baseConfig,
      moduleConfig = mc,
      module_version = version,
      alive = True,
      exit_attr = None,
      inQueue = pInBoundEventQueue,
      p_keepAlive = MqttKeepAlive mc,
      p_feedName = MqttFeedName mc,
      p_username = MqttUsername mc,
      p_key = MqttKey mc,
      p_host = MqttHost mc,
      p_port = MqttPort mc,
      p_publishJson = MqttPublishJson mc,
      p_publishFaceData = None,
      mqttConnected = False,
      p_client = [UsernamePwSet (MqttUsername mc) (MqttKey mc)],
      log = [],
      slept = 0\<rparr>"

subsection \<open>Names of the module\<close>

text \<open>
  The names the module binds at its top level: the imports and the class. A name that a
  method reads without \<^verbatim>\<open>self.\<close> is looked up here (no builtin is called
  \<^verbatim>\<open>_feedName\<close>), and a name that is not bound raises \<^verbatim>\<open>NameError\<close>.
\<close>

definition module_names :: "string list" where
  "module_names =
     [''logging'', ''time'', ''json'', ''mqtt'', ''ThreadsafeLogger'', ''LooseVersion'',
      ''StrictVersion'', ''ModuleProcess'', ''configLoader'', ''__version__'',
      ''MQTTClientModule'']"

definition load_global :: "string \<Rightarrow> py_error + pyval" where
  "load_global n = (if n \<in> set module_names then Inr (VObj n) else Inl (NameError n))"

subsection \<open>subscribe and publish\<close>

text \<open>
  \<^verbatim>\<open>if not feed: feed = _feedName\<close> reads the bare name \<^verbatim>\<open>_feedName\<close>, not the
  attribute \<^verbatim>\<open>self._feedName\<close>.
\<close>

definition default_feed :: "pyval \<Rightarrow> py_error + pyval" where
  "default_feed feed = (if \<not> truthy feed then load_global ''_feedName'' else Inr feed)"

definition subscribe :: "pyval \<Rightarrow> state \<Rightarrow> (py_error + unit) \<times> state" where
  "subscribe feed s =
     (case default_feed feed of
        Inl e \<Rightarrow> (Inl e, s)
      | Inr f \<Rightarrow> (Inr (), client (Subscribe (FeedPath (p_username s) f)) s))"

definition publish :: "pyval \<Rightarrow> pyval \<Rightarrow> state \<Rightarrow> (py_error + unit) \<times> state" where
  "publish val feed s =
     (case default_feed feed of
        Inl e \<Rightarrow> (Inl e, s)
      | Inr f \<Rightarrow> (Inr (), client (Publish (FeedPath (p_username s) f) val) s))"

subsection \<open>flatten_dict\<close>

text \<open>
  The running total of \<^verbatim>\<open>sum\<close> starts at the int 0 and stays a number: an int or
  a float. Adding a bool counts it as 0 or 1; adding anything else raises
  \<^verbatim>\<open>TypeError\<close>.
\<close>

datatype number = NInt int | NFloat rat

fun add_num :: "number \<Rightarrow> pyval \<Rightarrow> py_error + number" where
  "add_num (NInt a) (VInt b) = Inr (NInt (a + b))"
| "add_num (NInt a) (VBool b) = Inr (NInt (a + (if b then 1 else 0)))"
| "add_num (NInt a) (VFloat b) = Inr (NFloat (of_int a + b))"
| "add_num (NFloat a) (VInt b) = Inr (NFloat (a + of_int b))"
| "add_num (NFloat a) (VBool b) = Inr (NFloat (a + (if b then 1 else 0)))"
| "add_num (NFloat a) (VFloat b) = Inr (NFloat (a + b))"
| "add_num a v = Inl TypeError"

text \<open>\<^verbatim>\<open>sum(aDict[key] for key in aDict)\<close>, over the keys still to visit.\<close>

fun py_sum :: "pyval \<Rightarrow> pyval list \<Rightarrow> number \<Rightarrow> py_error + number" where
  "py_sum aDict [] acc = Inr acc"
| "py_sum aDict (key # keys) acc =
     (case py_getitem aDict key of
        Inl e \<Rightarrow> Inl e
      | Inr v \<Rightarrow>
          (case add_num acc v of
             Inl e \<Rightarrow> Inl e
           | Inr acc' \<Rightarrow> py_sum aDict keys acc'))"

fun py_float :: "number \<Rightarrow> rat" where
  "py_float (NInt i) = of_int i"
| "py_float (NFloat r) = r"

text \<open>The right-hand side \<^verbatim>\<open>float(sum(aDict[key] for key in aDict)) / len(aDict)\<close>.\<close>

definition flatten_expr :: "pyval \<Rightarrow> py_error + pyval" where
  "flatten_expr aDict =
     (case py_iter aDict of
        Inl e \<Rightarrow> Inl e
      | Inr keys \<Rightarrow>
          (case py_sum aDict keys (NInt 0) of
             Inl e \<Rightarrow> Inl e
           | Inr acc \<Rightarrow>
               (case py_len aDict of
                  Inl e \<Rightarrow> Inl e
                | Inr n \<Rightarrow>
                    if n = 0 then Inl ZeroDivisionError
                    else Inr (VFloat (py_float acc / of_nat n)))))"

text \<open>
  When the right-hand side raises, the handler logs and the local \<^verbatim>\<open>val\<close> has
  never been bound: \<^verbatim>\<open>return val or 0\<close> then raises \<^verbatim>\<open>UnboundLocalError\<close>.
\<close>

definition flatten_dict :: "pyval \<Rightarrow> state \<Rightarrow> (py_error + pyval) \<times> state" where
  "flatten_dict aDict s =
     (case flatten_expr aDict of
        Inl e \<Rightarrow>
          (Inl (UnboundLocalError ''val''),
           logger ERROR ''Error flattening dict, returning 0: %s'' [AErr e] s)
      | Inr val \<Rightarrow> (Inr (if truthy val then val else VInt 0), s))"

subsection \<open>publish_face_values and publish_json_message\<close>

text \<open>The value published for one attribute: the \<^verbatim>\<open>if type(...) is dict\<close> statement.\<close>

definition attr_value :: "pyval \<Rightarrow> state \<Rightarrow> (py_error + pyval) \<times> state" where
  "attr_value v s =
     (if is_dict v then
        (case flatten_dict v s of
           (Inl e, s1) \<Rightarrow> (Inl e, s1)
         | (Inr val, s1) \<Rightarrow> (Inr val, logger STDOUT ''val: '' [AVal val] s1))
      else (Inr v, s))"

text \<open>The inner loop \<^verbatim>\<open>for key in faceAttrs\<close>, over the keys still to visit.\<close>

fun publish_attrs :: "pyval \<Rightarrow> pyval list \<Rightarrow> state \<Rightarrow> (py_error + unit) \<times> state" where
  "publish_attrs faceAttrs [] s = (Inr (), s)"
| "publish_attrs faceAttrs (key # keys) s =
     (case py_getitem faceAttrs key of
        Inl e \<Rightarrow> (Inl e, s)
      | Inr v \<Rightarrow>
          (case attr_value v s of
             (Inl e, s1) \<Rightarrow> (Inl e, s1)
           | (Inr val, s1) \<Rightarrow>
               (case publish val key s1 of
                  (Inl e, s2) \<Rightarrow> (Inl e, s2)
                | (Inr u, s2) \<Rightarrow> publish_attrs faceAttrs keys s2)))"

text \<open>The outer loop \<^verbatim>\<open>for face in message.extended_data['predictions']\<close>.\<close>

fun publish_faces :: "pyval list \<Rightarrow> state \<Rightarrow> (py_error + unit) \<times> state" where
  "publish_faces [] s = (Inr (), s)"
| "publish_faces (face # faces) s =
     (case py_getitem face (VStr ''faceAttributes'') of
        Inl e \<Rightarrow> (Inl e, s)
      | Inr faceAttrs \<Rightarrow>
          (case py_iter faceAttrs of
             Inl e \<Rightarrow> (Inl e, s)
           | Inr keys \<Rightarrow>
               (case publish_attrs faceAttrs keys s of
                  (Inl e, s1) \<Rightarrow> (Inl e, s1)
                | (Inr u, s1) \<Rightarrow> publish_faces faces s1)))"

text \<open>The body of the \<^verbatim>\<open>try\<close>, then the whole method with its handler.\<close>

definition publish_face_values_try :: "message \<Rightarrow> state \<Rightarrow> (py_error + unit) \<times> state" where
  "publish_face_values_try message s =
     (case py_getitem (extended_data message) (VStr ''predictions'') of
        Inl e \<Rightarrow> (Inl e, s)
      | Inr predictions \<Rightarrow>
          (case py_iter predictions of
             Inl e \<Rightarrow> (Inl e, s)
           | Inr faces \<Rightarrow> publish_faces faces s))"

definition publish_face_values :: "message \<Rightarrow> state \<Rightarrow> (py_error + unit) \<times> state" where
  "publish_face_values message s =
     (case publish_face_values_try message s of
        (Inl e, s1) \<Rightarrow> (Inr (), logger ERROR ''Error publishing values: %s'' [AErr e] s1)
      | (Inr u, s1) \<Rightarrow> (Inr (), s1))"

definition publish_json_message :: "message \<Rightarrow> state \<Rightarrow> (py_error + unit) \<times> state" where
  "publish_json_message message s = publish (stringify message) (VBool False) s"

subsection \<open>shutdown\<close>

definition shutdown :: "state \<Rightarrow> state" where
  "shutdown s =
     (let s1 = logger INFO ''Shutting down'' [] s;
          s2 = s1\<lparr>alive := False\<rparr>;
          s3 = time_sleep 1 s2
      in s3\<lparr>exit_attr := Some True\<rparr>)"

subsection \<open>Connection callbacks\<close>

definition on_connect :: "int \<Rightarrow> state \<Rightarrow> (py_error + unit) \<times> state" where
  "on_connect rc s =
     (let s1 = logger DEBUG ''MQTT onConnect called'' [] s
      in if rc = 0 then (Inr (), s1\<lparr>mqttConnected := True\<rparr>)
         else (Inl (RuntimeError rc), logger ERROR ''MQTT failed to connect: %s'' [AInt rc] s1))"

definition handle_reconnect :: "int \<Rightarrow> state \<Rightarrow> state" where
  "handle_reconnect result_code s = s"

definition on_disconnect :: "int \<Rightarrow> state \<Rightarrow> state" where
  "on_disconnect rc s =
     (let s1 = logger DEBUG ''MQTT onDisconnect called'' [] s;
          s2 = s1\<lparr>mqttConnected := False\<rparr>
      in if rc \<noteq> 0
         then handle_reconnect rc (logger DEBUG ''MQTT disconnected unexpectedly: %s'' [AInt rc] s2)
         else s2)"

definition on_message :: "state \<Rightarrow> state" where
  "on_message s = logger DEBUG ''MQTT onMessage called for client: %s'' [AVal (VObj ''client'')] s"

definition connect :: "py_error option \<Rightarrow> state \<Rightarrow> (py_error + unit) \<times> state" where
  "connect failure s =
     (if mqttConnected s then (Inr (), s)
      else (case failure of
              Some e \<Rightarrow> (Inl e, client (Connect (p_host s) (p_port s) (p_keepAlive s)) s)
            | None \<Rightarrow> (Inr (), client (Connect (p_host s) (p_port s) (p_keepAlive s)) s)))"

definition disconnect :: "state \<Rightarrow> state" where
  "disconnect s = (if mqttConnected s then client Disconnect s else s)"

subsection \<open>process_queue\<close>

text \<open>
  What the broker delivers while \<^verbatim>\<open>self._client.loop(timeout=1)\<close> runs: the client
  calls the registered callbacks, in order. An exception of a callback leaves the loop call.
\<close>

datatype broker_event = ConnAck int | Disconnected int | Incoming

fun callbacks :: "broker_event list \<Rightarrow> state \<Rightarrow> (py_error + unit) \<times> state" where
  "callbacks [] s = (Inr (), s)"
| "callbacks (ConnAck rc # evs) s =
     (case on_connect rc s of
        (Inl e, s1) \<Rightarrow> (Inl e, s1)
      | (Inr u, s1) \<Rightarrow> callbacks evs s1)"
| "callbacks (Disconnected rc # evs) s = callbacks evs (on_disconnect rc s)"
| "callbacks (Incoming # evs) s = callbacks evs (on_message s)"

definition client_loop :: "rat \<Rightarrow> broker_event list \<Rightarrow> state \<Rightarrow> (py_error + unit) \<times> state" where
  "client_loop timeout evs s = callbacks evs (client (Loop timeout) s)"

text \<open>\<^verbatim>\<open>self.inQueue.get(block=False,timeout=1)\<close>\<close>

definition queue_get :: "state \<Rightarrow> (py_error + message option) \<times> state" where
  "queue_get s =
     (case inQueue s of
        [] \<Rightarrow> (Inl QueueEmpty, s)
      | message # rest \<Rightarrow> (Inr message, s\<lparr>inQueue := rest\<rparr>))"

text \<open>
  The statement that handles a message which is not the shutdown command. The class
  defines no method \<^verbatim>\<open>publish_values\<close>.
\<close>

definition send_message :: "message \<Rightarrow> state \<Rightarrow> (py_error + unit) \<times> state" where
  "send_message message s =
     (if p_publishJson s then publish_json_message message s
      else (case p_publishFaceData s of
              None \<Rightarrow> (Inl (AttributeError ''_publishFaceData''), s)
            | Some True \<Rightarrow> publish_face_values message s
            | Some False \<Rightarrow> (Inl (AttributeError ''publish_values''), s)))"

text \<open>The body of the \<^verbatim>\<open>try\<close> of the loop.\<close>

definition process_queue_try :: "state \<Rightarrow> (py_error + unit) \<times> state" where
  "process_queue_try s =
     (case queue_get s of
        (Inl e, s1) \<Rightarrow> (Inl e, s1)
      | (Inr None, s1) \<Rightarrow> (Inr (), s1)
      | (Inr (Some message), s1) \<Rightarrow>
          if mqttConnected s1 then
            if upper (topic message) = ''SHUTDOWN''
            then (Inr (), shutdown (logger DEBUG ''SHUTDOWN command handled'' [] s1))
            else send_message message s1
          else (Inr (), s1))"

text \<open>The \<^verbatim>\<open>try\<close> statement with its handler: every exception is logged.\<close>

definition process_queue_message :: "state \<Rightarrow> state" where
  "process_queue_message s =
     (case process_queue_try s of
        (Inl e, s1) \<Rightarrow> logger ERROR ''MQTT unable to read queue : %s '' [AErr e] s1
      | (Inr u, s1) \<Rightarrow> s1)"

text \<open>
  One turn of the \<^verbatim>\<open>while\<close> loop. Its inputs are the events the broker delivers
  during the pump and the messages that other processes have put on the queue by the
  time it is tested.
\<close>

record iteration =
  events :: "broker_event list"
  arrivals :: "message option list"

definition process_queue_body :: "iteration \<Rightarrow> state \<Rightarrow> (py_error + unit) \<times> state" where
  "process_queue_body it s =
     (case client_loop 1 (events it) s of
        (Inl e, s1) \<Rightarrow> (Inl e, s1)
      | (Inr u, s1) \<Rightarrow>
          (let s2 = s1\<lparr>inQueue := inQueue s1 @ arrivals it\<rparr>
           in if inQueue s2 \<noteq> [] then (Inr (), process_queue_message s2)
              else (Inr (), time_sleep (1 / 4) s2)))"

text \<open>
  The loop over the turns the environment provides. \<open>Running\<close>: the turns given are
  used up and the loop has not ended.
\<close>

datatype 'a ending = Returned 'a | Raised py_error | Running

fun process_queue :: "iteration list \<Rightarrow> state \<Rightarrow> unit ending \<times> state" where
  "process_queue [] s = (if alive s then (Running, s) else (Returned (), s))"
| "process_queue (it # its) s =
     (if alive s then
        (case process_queue_body it s of
           (Inl e, s1) \<Rightarrow> (Raised e, s1)
         | (Inr u, s1) \<Rightarrow> process_queue its s1)
      else (Returned (), s))"

subsection \<open>check_ss_version and run\<close>

text \<open>
  \<^verbatim>\<open>LooseVersion\<close> of the standard library splits a version string with the pattern
  \<^verbatim>\<open>(\d+ | [a-z]+ | \.)\<close>: the components are the longest runs of digits, of
  lower-case letters and of other characters, the periods are dropped, and a run of
  digits becomes an int.
\<close>

datatype char_kind = Digits | Letters | Period | Rest

definition classify :: "char \<Rightarrow> char_kind" where
  "classify c =
     (let n = (of_char c :: nat)
      in if 48 \<le> n \<and> n \<le> 57 then Digits
         else if 97 \<le> n \<and> n \<le> 122 then Letters
         else if n = 46 then Period
         else Rest)"

function split_components :: "string \<Rightarrow> string list" where
  "split_components [] = []"
| "split_components (c # cs) =
     (if classify c = Period then split_components cs
      else (c # takeWhile (\<lambda>d. classify d = classify c) cs)
             # split_components (dropWhile (\<lambda>d. classify d = classify c) cs))"
  by pat_completeness auto
termination
  by (relation "measure length") (auto simp: length_dropWhile_le less_Suc_eq_le)

datatype component = CInt nat | CStr string

definition int_of_digits :: "string \<Rightarrow> nat" where
  "int_of_digits ds = foldl (\<lambda>n d. 10 * n + (of_char d - 48)) 0 ds"

definition parse_component :: "string \<Rightarrow> component" where
  "parse_component x =
     (if list_all (\<lambda>d. classify d = Digits) x then CInt (int_of_digits x) else CStr x)"

definition LooseVersion :: "string \<Rightarrow> component list" where
  "LooseVersion vstring = map parse_component (split_components vstring)"

text \<open>
  Two versions are compared as lists: the first pair of components that differ decides,
  an int against a string raises \<^verbatim>\<open>TypeError\<close>, and a proper prefix is smaller.
\<close>

fun str_lt :: "string \<Rightarrow> string \<Rightarrow> bool" where
  "str_lt [] [] = False"
| "str_lt [] (d # ds) = True"
| "str_lt (c # cs) [] = False"
| "str_lt (c # cs) (d # ds) =
     (if c = d then str_lt cs ds else (of_char c :: nat) < of_char d)"

fun component_lt :: "component \<Rightarrow> component \<Rightarrow> py_error + bool" where
  "component_lt (CInt a) (CInt b) = Inr (a < b)"
| "component_lt (CStr a) (CStr b) = Inr (str_lt a b)"
| "component_lt x y = Inl TypeError"

fun version_lt :: "component list \<Rightarrow> component list \<Rightarrow> py_error + bool" where
  "version_lt [] [] = Inr False"
| "version_lt [] (y # ys) = Inr True"
| "version_lt (x # xs) [] = Inr False"
| "version_lt (x # xs) (y # ys) = (if x = y then version_lt xs ys else component_lt x y)"

definition loose_lt :: "component list \<Rightarrow> component list \<Rightarrow> py_error + bool" where
  "loose_lt v w = (if v = w then Inr False else version_lt v w)"

definition check_ss_version :: "state \<Rightarrow> (py_error + bool) \<times> state" where
  "check_ss_version s =
     (let s1 = logger INFO ''Module version %s'' [AStr (module_version s)] s
      in case loose_lt (LooseVersion (ss_version (config s)))
                (LooseVersion (MinSimpleSensorVersion (moduleConfig s))) of
           Inl e \<Rightarrow> (Inl e, s1)
         | Inr older \<Rightarrow>
             if older then
               (Inr False,
                logger ERROR
                  ''This module requires a min SimpleSensor %s version.  This instance is running version %s''
                  [AStr (MinSimpleSensorVersion (moduleConfig s)), AStr (ss_version (config s))] s1)
             else (Inr True, s1))"

text \<open>
  What the surroundings decide during \<^verbatim>\<open>run\<close>: whether the transport refuses the
  connection, and the turns of the loop.
\<close>

record environment =
  connect_failure :: "py_error option"
  turns :: "iteration list"

definition run :: "environment \<Rightarrow> state \<Rightarrow> pyval ending \<times> state" where
  "run env s =
     (case check_ss_version s of
        (Inl e, s1) \<Rightarrow> (Raised e, s1)
      | (Inr ok, s1) \<Rightarrow>
          if \<not> ok then (Returned (VBool False), s1)
          else
            (case connect (connect_failure env) (logger INFO ''Running MQTT'' [] s1) of
               (Inl e, s2) \<Rightarrow> (Raised e, s2)
             | (Inr u, s2) \<Rightarrow>
                 (case process_queue (turns env) (s2\<lparr>alive := True\<rparr>) of
                    (Returned u', s3) \<Rightarrow> (Returned VNone, s3)
                  | (Raised e, s3) \<Rightarrow> (Raised e, s3)
                  | (Running, s3) \<Rightarrow> (Running, s3))))"

section \<open>The Azure image predictor\<close>

text \<open>
  The exceptions of this module carry the message that \<^verbatim>\<open>str(e)\<close> returns.
  \<open>LibraryError\<close> is an exception raised inside \<^verbatim>\<open>requests\<close>.
\<close>

datatype az_error = EnvironmentError string | ValueError string | LibraryError string

fun str_error :: "az_error \<Rightarrow> string" where
  "str_error (EnvironmentError msg) = msg"
| "str_error (ValueError msg) = msg"
| "str_error (LibraryError msg) = msg"

function str_nat :: "nat \<Rightarrow> string" where
  "str_nat n =
     (if n < 10 then [char_of (48 + n)] else str_nat (n div 10) @ [char_of (48 + n mod 10)])"
  by pat_completeness auto
termination
  by (relation "measure id") auto

definition str_int :: "int \<Rightarrow> string" where
  "str_int i = (if i < 0 then CHR ''-'' # str_nat (nat (- i)) else str_nat (nat i))"

text \<open>
  The response of the REST call: \<open>json\<close> is what \<^verbatim>\<open>r.json()\<close> returns or raises.
\<close>

record response =
  status_code :: int
  r_text :: string
  json :: "az_error + pyval"

datatype az_arg = ZErr az_error | ZVal pyval

type_synonym az_log = "(level \<times> string \<times> az_arg list) list"

record predictor =
  p_subscriptionKey :: string
  p_uriBase :: string
  p_params :: string

definition init_predictor :: "string \<Rightarrow> string \<Rightarrow> predictor" where
  "init_predictor subscriptionKey uriBase =
     \<lparr>p_subscriptionKey = subscriptionKey,
      p_uriBase = uriBase,
      p_params =
        ''returnFaceId=true&returnFaceLandmarks=false&returnFaceAttributes=age%2Cgender%2Cglasses%2CfacialHair''\<rparr>"

text \<open>
  The body of the \<^verbatim>\<open>try\<close> of \<^verbatim>\<open>_get_prediction\<close>. \<open>post\<close> is
  \<^verbatim>\<open>requests.post\<close>, from the URL and the image bytes to a response or an exception.
\<close>

definition api_url :: "predictor \<Rightarrow> string" where
  "api_url self = ''https://'' @ p_uriBase self @ ''/face/v1.0/detect?'' @ p_params self"

definition request_try ::
  "predictor \<Rightarrow> (string \<Rightarrow> string \<Rightarrow> az_error + response) \<Rightarrow> string \<Rightarrow> (az_error + pyval) \<times> az_log"
where
  "request_try self post imageBytes =
     (case post (api_url self) imageBytes of
        Inl e \<Rightarrow> (Inl e, [])
      | Inr r \<Rightarrow>
          if status_code r \<noteq> 200 then
            (Inl (ValueError (''Request to Azure returned an error '' @ str_int (status_code r)
                    @ '', the response is:'' @ [CHR 0x0A] @ r_text r)), [])
          else
            (case json r of
               Inl e \<Rightarrow> (Inl e, [])
             | Inr jsonResult \<Rightarrow> (Inr jsonResult, [(DEBUG, ''Got azure data %s'', [ZVal jsonResult])])))"

text \<open>
  \<^verbatim>\<open>_get_prediction\<close>: the handler of the \<^verbatim>\<open>try\<close> logs the exception and the
  method then ends without a \<^verbatim>\<open>return\<close>, that is, it returns \<^verbatim>\<open>None\<close>.
\<close>

definition p_get_prediction ::
  "predictor \<Rightarrow> (string \<Rightarrow> string \<Rightarrow> az_error + response) \<Rightarrow> string \<Rightarrow> (az_error + pyval) \<times> az_log"
where
  "p_get_prediction self post imageBytes =
     (if length (p_subscriptionKey self) < 10 then
        (Inl (EnvironmentError (''Azure subscription key - '' @ p_subscriptionKey self
                @ '' - is not valid'')), [])
      else
        (case request_try self post imageBytes of
           (Inl e, lg) \<Rightarrow> (Inr VNone, lg @ [(ERROR, ''%s'', [ZErr e])])
         | (Inr jsonResult, lg) \<Rightarrow> (Inr jsonResult, lg)))"

definition get_prediction ::
  "predictor \<Rightarrow> (string \<Rightarrow> string \<Rightarrow> az_error + response) \<Rightarrow> string \<Rightarrow> (string \<times> pyval) list \<times> az_log"
where
  "get_prediction self post imageBytes =
     (case p_get_prediction self post imageBytes of
        (Inr tempResult, lg) \<Rightarrow> ([(''predictions'', tempResult)], lg)
      | (Inl e, lg) \<Rightarrow>
          ([(''error'', VStr (str_error e))],
           lg @ [(ERROR, ''Error getting prediction: %s'', [ZErr e])]))"

section \<open>Example inputs\<close>

definition example_config :: module_config where
  "example_config =
     \<lparr>MqttKeepAlive = 60, MqttFeedName = ''sensors'', MqttUsername = ''user'',
      MqttKey = ''secret'', MqttHost = ''io.adafruit.com'', MqttPort = 1883,
      MqttPublishJson = True, MinSimpleSensorVersion = ''2.1.0''\<rparr>"

text \<open>An instance after \<^verbatim>\<open>__init__\<close>, and the same one once the broker has acknowledged.\<close>

definition example_state :: state where
  "example_state = init \<lparr>ss_version = ''2.0.0''\<rparr> example_config ''0.1.0'' []"

definition example_connected :: state where
  "example_connected = example_state\<lparr>mqttConnected := True\<rparr>"

definition example_message :: "string \<Rightarrow> pyval \<Rightarrow> message" where
  "example_message t d = \<lparr>topic = t, extended_data = d, stringify = VStr ''{}''\<rparr>"

definition queued :: "message \<Rightarrow> state \<Rightarrow> state" where
  "queued message s = s\<lparr>inQueue := [Some message]\<rparr>"


definition example_predictor :: predictor where
  "example_predictor = init_predictor ''0123456789abcdef'' ''westus.api.cognitive.microsoft.com''"

definition example_response :: response where
  "example_response =
     \<lparr>status_code = 404, r_text = ''Resource not found'',
      json = Inr (VDict [(''error'', VStr ''Resource not found'')])\<rparr>"

definition not_found :: "string \<Rightarrow> string \<Rightarrow> az_error + response" where
  "not_found url imageBytes = Inr example_response"


section \<open>Notions of the specification\<close>

text \<open>
  The specification speaks of the arithmetic mean of a mapping of numeric sub-values, and
  of predictions as a sequence of per-face records that each hold a mapping
  \<^verbatim>\<open>faceAttributes\<close>. These definitions follow its words, not the code.
\<close>

fun is_number :: "pyval \<Rightarrow> bool" where
  "is_number (VInt i) = True"
| "is_number (VBool b) = True"
| "is_number (VFloat r) = True"
| "is_number v = False"

fun number_value :: "pyval \<Rightarrow> rat" where
  "number_value (VInt i) = of_int i"
| "number_value (VBool b) = (if b then 1 else 0)"
| "number_value (VFloat r) = r"
| "number_value v = 0"

definition mean :: "rat list \<Rightarrow> rat" where
  "mean xs = sum_list xs / of_nat (length xs)"



section \<open>Properties\<close>

subsection \<open>Evaluation of the examples\<close>

lemmas example_defs =
  example_config_def example_state_def example_connected_def example_message_def queued_def
  init_def

lemma upper_examples:
  "upper ''Shutdown'' = ''SHUTDOWN''" "upper ''face'' \<noteq> ''SHUTDOWN''"
  by (simp_all add: upper_def upper_char_def)

subsection \<open>The default feed\<close>

text \<open>
  C1 (the code departs from the claim). The claim: when the caller omits the feed, or
  passes a falsy one, the configured default feed name is substituted before the broker
  call. The code: \<^verbatim>\<open>publish\<close> and \<^verbatim>\<open>subscribe\<close> read the unbound name
  \<^verbatim>\<open>_feedName\<close>, so each raises \<^verbatim>\<open>NameError\<close> and makes no broker call at all.
\<close>

theorem default_feed_name_error:
  "\<not> truthy feed \<Longrightarrow>
     publish val feed s = (Inl (NameError ''_feedName''), s) \<and>
     subscribe feed s = (Inl (NameError ''_feedName''), s)"
  by (simp add: publish_def subscribe_def default_feed_def load_global_def module_names_def)

text \<open>C1 at the default argument \<^verbatim>\<open>feed=False\<close>, on the example instance.\<close>

theorem default_feed_name_error_witness:
  "\<not> truthy (VBool False) \<and>
   publish (VStr ''{}'') (VBool False) example_state
     = (Inl (NameError ''_feedName''), example_state) \<and>
   subscribe (VBool False) example_state = (Inl (NameError ''_feedName''), example_state)"
  using default_feed_name_error [of "VBool False" "VStr ''{}''" example_state] by simp

subsection \<open>Messages taken from the queue\<close>

text \<open>
  C2 (the code departs from the claim). The claim: with publish-as-JSON set, a message
  that is not the shutdown command, taken from the queue while connected, is published
  exactly once with its serialization as payload. The code: \<^verbatim>\<open>publish_json_message\<close>
  calls \<^verbatim>\<open>publish\<close> without a feed, which raises \<^verbatim>\<open>NameError\<close> as in C1; the
  handler of the loop logs it, and the client is never asked to publish.
\<close>

theorem json_message_not_published:
  "inQueue s = Some m # rest \<Longrightarrow> mqttConnected s \<Longrightarrow> p_publishJson s \<Longrightarrow>
   upper (topic m) \<noteq> ''SHUTDOWN'' \<Longrightarrow>
   process_queue_message s =
     logger ERROR ''MQTT unable to read queue : %s '' [AErr (NameError ''_feedName'')]
       (s\<lparr>inQueue := rest\<rparr>)"
  by (simp add: process_queue_message_def process_queue_try_def queue_get_def send_message_def
      publish_json_message_def publish_def default_feed_def load_global_def module_names_def)

text \<open>C2 at a message with topic \<^verbatim>\<open>face\<close>: the calls on the client stay as they were.\<close>

theorem json_message_not_published_witness:
  "mqttConnected (queued (example_message ''face'' (VDict [])) example_connected) \<and>
   p_publishJson (queued (example_message ''face'' (VDict [])) example_connected) \<and>
   p_client (process_queue_message (queued (example_message ''face'' (VDict [])) example_connected))
     = [UsernamePwSet ''user'' ''secret''] \<and>
   log (process_queue_message (queued (example_message ''face'' (VDict [])) example_connected))
     = [(ERROR, ''MQTT unable to read queue : %s '', [AErr (NameError ''_feedName'')])]"
  using json_message_not_published
    [of "queued (example_message ''face'' (VDict [])) example_connected"
        "example_message ''face'' (VDict [])" "[]"]
  by (simp add: example_defs upper_examples logger_def)

text \<open>Once \<open>alive\<close> is false the loop ends before its next turn.\<close>

lemma process_queue_ends: "\<not> alive s \<Longrightarrow> process_queue its s = (Returned (), s)"
  by (cases its) simp_all

text \<open>
  C3. A message whose topic is \<^verbatim>\<open>SHUTDOWN\<close> in any letter case, taken from the
  queue while connected, sets \<open>alive\<close> to false, and no call is made on the client for it.
\<close>

theorem shutdown_message_stops_worker:
  "inQueue s = Some m # rest \<Longrightarrow> mqttConnected s \<Longrightarrow> upper (topic m) = ''SHUTDOWN'' \<Longrightarrow>
   alive (process_queue_message s) = False \<and>
   p_client (process_queue_message s) = p_client s"
  by (simp add: process_queue_message_def process_queue_try_def queue_get_def shutdown_def
      logger_def time_sleep_def)

text \<open>C3 at the topic \<^verbatim>\<open>Shutdown\<close>.\<close>

theorem shutdown_message_stops_worker_witness:
  "upper (topic (example_message ''Shutdown'' VNone)) = ''SHUTDOWN'' \<and>
   mqttConnected (queued (example_message ''Shutdown'' VNone) example_connected) \<and>
   alive (queued (example_message ''Shutdown'' VNone) example_connected) \<and>
   alive (process_queue_message (queued (example_message ''Shutdown'' VNone) example_connected))
     = False \<and>
   p_client (process_queue_message (queued (example_message ''Shutdown'' VNone) example_connected))
     = [UsernamePwSet ''user'' ''secret'']"
  using shutdown_message_stops_worker
    [of "queued (example_message ''Shutdown'' VNone) example_connected"
        "example_message ''Shutdown'' VNone" "[]"]
  by (simp add: example_defs upper_examples)

subsection \<open>Flattening a nested attribute\<close>

text \<open>
  In exact arithmetic, the right-hand side of \<^verbatim>\<open>flatten_dict\<close> is the mean of the
  values whenever the mapping is not empty and holds numbers only.
\<close>

lemma add_num_number:
  "is_number v \<Longrightarrow>
   \<exists>acc'. add_num acc v = Inr acc' \<and> py_float acc' = py_float acc + number_value v"
  by (cases acc; cases v) simp_all

lemma py_sum_numbers:
  assumes "distinct (map fst kvs)"
  shows "set ps \<subseteq> set kvs \<Longrightarrow> list_all (\<lambda>kv. is_number (snd kv)) ps \<Longrightarrow>
         \<exists>acc'. py_sum (VDict kvs) (map (\<lambda>kv. VStr (fst kv)) ps) acc = Inr acc' \<and>
                py_float acc' = py_float acc + sum_list (map (\<lambda>kv. number_value (snd kv)) ps)"
proof (induction ps arbitrary: acc)
  case Nil
  show ?case by simp
next
  case (Cons kv ps)
  obtain k v where kv: "kv = (k, v)" by (cases kv)
  from Cons.prems kv have "(k, v) \<in> set kvs" by simp
  with assms have look: "map_of kvs k = Some v" by simp
  from Cons.prems kv have "is_number v" by simp
  then obtain a where a: "add_num acc v = Inr a" "py_float a = py_float acc + number_value v"
    using add_num_number by blast
  from Cons.prems have "set ps \<subseteq> set kvs" "list_all (\<lambda>kv. is_number (snd kv)) ps"
    by simp_all
  from Cons.IH [OF this, of a] obtain acc' where
    "py_sum (VDict kvs) (map (\<lambda>kv. VStr (fst kv)) ps) a = Inr acc'"
    "py_float acc' = py_float a + sum_list (map (\<lambda>kv. number_value (snd kv)) ps)"
    by blast
  with kv look a show ?case by simp
qed

lemma flatten_expr_mean:
  assumes "distinct (map fst kvs)" "kvs \<noteq> []" "list_all (\<lambda>kv. is_number (snd kv)) kvs"
  shows "flatten_expr (VDict kvs) = Inr (VFloat (mean (map (\<lambda>kv. number_value (snd kv)) kvs)))"
proof -
  from py_sum_numbers [OF assms(1), of kvs "NInt 0"] assms(3) obtain acc' where
    "py_sum (VDict kvs) (map (\<lambda>kv. VStr (fst kv)) kvs) (NInt 0) = Inr acc'"
    "py_float acc' = sum_list (map (\<lambda>kv. number_value (snd kv)) kvs)"
    by auto
  with assms(2) show ?thesis by (simp add: flatten_expr_def mean_def)
qed

lemma flatten_dict_emotion:
  "flatten_dict (VDict [(''happy'', VFloat (4 / 5)), (''sad'', VFloat (1 / 5))]) s
     = (Inr (VFloat (1 / 2)), s)"
  by (simp add: flatten_dict_def flatten_expr_def)

text \<open>The right-hand side raises on an empty mapping and on a value that is no number.\<close>

lemma flatten_expr_empty: "flatten_expr (VDict []) = Inl ZeroDivisionError"
  by (simp add: flatten_expr_def)

lemma flatten_expr_hair:
  "flatten_expr (VDict [(''bald'', VFloat (1 / 10)), (''hairColor'', VList [])]) = Inl TypeError"
  by (simp add: flatten_expr_def)

lemma add_num_other: "\<not> is_number v \<Longrightarrow> add_num acc v = Inl TypeError"
  by (cases acc; cases v) simp_all

lemma py_sum_other:
  assumes "distinct (map fst kvs)"
  shows "set ps \<subseteq> set kvs \<Longrightarrow> \<not> list_all (\<lambda>kv. is_number (snd kv)) ps \<Longrightarrow>
         py_sum (VDict kvs) (map (\<lambda>kv. VStr (fst kv)) ps) acc = Inl TypeError"
proof (induction ps arbitrary: acc)
  case Nil
  then show ?case by simp
next
  case (Cons kv ps)
  obtain k v where kv: "kv = (k, v)" by (cases kv)
  from Cons.prems kv have "(k, v) \<in> set kvs" by simp
  with assms have look: "map_of kvs k = Some v" by simp
  show ?case
  proof (cases "is_number v")
    case False
    with kv look show ?thesis by (simp add: add_num_other)
  next
    case True
    then obtain a where a: "add_num acc v = Inr a"
      using add_num_number by blast
    from Cons.prems kv True
    have "set ps \<subseteq> set kvs" "\<not> list_all (\<lambda>kv. is_number (snd kv)) ps"
      by simp_all
    from Cons.IH [OF this, of a] kv look a show ?thesis by simp
  qed
qed

lemma flatten_dict_raises:
  "flatten_expr aDict = Inl e \<Longrightarrow>
   flatten_dict aDict s =
     (Inl (UnboundLocalError ''val''),
      logger ERROR ''Error flattening dict, returning 0: %s'' [AErr e] s)"
  by (simp add: flatten_dict_def)

text \<open>On a mapping of numbers that is not empty, the method returns the mean, or 0 for a mean of zero.\<close>

lemma flatten_dict_value:
  assumes "distinct (map fst kvs)" "kvs \<noteq> []" "list_all (\<lambda>kv. is_number (snd kv)) kvs"
  shows "flatten_dict (VDict kvs) s =
     (Inr (if mean (map (\<lambda>kv. number_value (snd kv)) kvs) = 0 then VInt 0
           else VFloat (mean (map (\<lambda>kv. number_value (snd kv)) kvs))), s)"
  using flatten_expr_mean [OF assms] by (simp add: flatten_dict_def)

text \<open>
  C4 (the code departs from the claim). The claim: \<^verbatim>\<open>flatten_dict\<close> returns the mean
  of the values, and when the reduction raises it logs the error and returns 0. The code:
  on an empty mapping and on a mapping with a value that is no number the reduction
  raises, the error is logged, and \<^verbatim>\<open>return val or 0\<close> then raises
  \<^verbatim>\<open>UnboundLocalError\<close>, because \<^verbatim>\<open>val\<close> was never assigned.
\<close>

theorem flatten_dict_unbound_local:
  assumes "distinct (map fst kvs)"
    and "kvs = [] \<or> \<not> list_all (\<lambda>kv. is_number (snd kv)) kvs"
  shows "\<exists>e. flatten_dict (VDict kvs) s =
     (Inl (UnboundLocalError ''val''),
      logger ERROR ''Error flattening dict, returning 0: %s'' [AErr e] s)"
proof -
  have "\<exists>e. flatten_expr (VDict kvs) = Inl e"
  proof (cases "kvs = []")
    case True
    then show ?thesis by (simp add: flatten_expr_def)
  next
    case False
    with assms(2) have "\<not> list_all (\<lambda>kv. is_number (snd kv)) kvs" by simp
    from py_sum_other [OF assms(1) _ this, of "NInt 0"] show ?thesis
      by (simp add: flatten_expr_def)
  qed
  then show ?thesis using flatten_dict_raises by blast
qed

text \<open>
  C4 at the empty mapping, where the division by the length raises, and at a mapping
  with a list among its values, where the sum raises.
\<close>

theorem flatten_dict_unbound_local_witness:
  "distinct (map fst ([] :: (string \<times> pyval) list)) \<and>
   flatten_dict (VDict []) example_state =
     (Inl (UnboundLocalError ''val''),
      logger ERROR ''Error flattening dict, returning 0: %s'' [AErr ZeroDivisionError]
        example_state) \<and>
   distinct (map fst [(''bald'', VFloat (1 / 10)), (''hairColor'', VList [])]) \<and>
   \<not> list_all (\<lambda>kv. is_number (snd kv)) [(''bald'', VFloat (1 / 10)), (''hairColor'', VList [])] \<and>
   flatten_dict (VDict [(''bald'', VFloat (1 / 10)), (''hairColor'', VList [])]) example_state =
     (Inl (UnboundLocalError ''val''),
      logger ERROR ''Error flattening dict, returning 0: %s'' [AErr TypeError] example_state)"
  using flatten_dict_unbound_local [of "[]" example_state]
    flatten_dict_unbound_local
      [of "[(''bald'', VFloat (1 / 10)), (''hairColor'', VList [])]" example_state]
  by (simp add: flatten_dict_def flatten_expr_def)

text \<open>
  Inside \<^verbatim>\<open>publish_face_values\<close> that exception ends the traversal: the attributes
  after the empty mapping are not published.
\<close>

lemma empty_attribute_stops_traversal:
  "publish_face_values
     (example_message ''face''
        (VDict [(''predictions'', VList [VDict [(''faceAttributes'',
             VDict [(''emotion'', VDict []), (''age'', VInt 30)])]])]))
     example_connected
   = (Inr (), example_connected\<lparr>log :=
        [(ERROR, ''Error flattening dict, returning 0: %s'', [AErr ZeroDivisionError]),
         (ERROR, ''Error publishing values: %s'', [AErr (UnboundLocalError ''val'')])]\<rparr>)"
  by (simp add: flatten_dict_def flatten_expr_def publish_face_values_def
      publish_face_values_try_def attr_value_def logger_def example_defs)

subsection \<open>shutdown\<close>

text \<open>
  C5, as the claim states it, fails: the second of two calls of \<^verbatim>\<open>shutdown\<close> sleeps
  for another second and logs again, so the instance after two calls differs from the
  instance after one.
\<close>

theorem shutdown_twice_counterexample:
  "slept (shutdown example_state) = 1 \<and>
   slept (shutdown (shutdown example_state)) = 2 \<and>
   shutdown (shutdown example_state) \<noteq> shutdown example_state"
  by (simp add: shutdown_def logger_def time_sleep_def example_defs)

text \<open>
  C5, amended. Two calls of \<^verbatim>\<open>shutdown\<close> leave \<open>alive\<close> false and \<open>exit\<close> true, as
  one call does, and raise nothing; each call logs and sleeps for one second, two seconds
  in all.
\<close>

theorem shutdown_twice:
  "alive (shutdown (shutdown s)) = False \<and>
   exit_attr (shutdown (shutdown s)) = Some True \<and>
   shutdown (shutdown s) =
     (shutdown s)\<lparr>slept := slept s + 2,
       log := log s @ [(INFO, ''Shutting down'', []), (INFO, ''Shutting down'', [])]\<rparr>"
  by (simp add: shutdown_def logger_def time_sleep_def)

subsection \<open>The attribute that is never assigned\<close>

text \<open>
  No method assigns \<^verbatim>\<open>self._publishFaceData\<close>: every operation leaves the field as
  it finds it.
\<close>

lemma fd_publish: "p_publishFaceData (snd (publish v f s)) = p_publishFaceData s"
  by (simp add: publish_def client_def split: sum.splits)

lemma fd_flatten_dict: "p_publishFaceData (snd (flatten_dict d s)) = p_publishFaceData s"
  by (simp add: flatten_dict_def logger_def split: sum.splits)

lemma fd_attr_value: "p_publishFaceData (snd (attr_value v s)) = p_publishFaceData s"
proof (cases "flatten_dict v s")
  case (Pair r s1)
  with fd_flatten_dict [of v s] show ?thesis
    by (cases r) (simp_all add: attr_value_def logger_def)
qed

lemma fd_publish_attrs:
  "p_publishFaceData (snd (publish_attrs fa keys s)) = p_publishFaceData s"
proof (induction keys arbitrary: s)
  case Nil
  show ?case by simp
next
  case (Cons key keys)
  show ?case
  proof (cases "py_getitem fa key")
    case (Inl e)
    then show ?thesis by simp
  next
    case (Inr v)
    obtain r1 s1 where a: "attr_value v s = (r1, s1)" by (cases "attr_value v s")
    have s1: "p_publishFaceData s1 = p_publishFaceData s"
      using fd_attr_value [of v s] a by simp
    show ?thesis
    proof (cases r1)
      case (Inl e)
      with Inr a s1 show ?thesis by simp
    next
      case val: (Inr val)
      obtain r2 s2 where p: "publish val key s1 = (r2, s2)" by (cases "publish val key s1")
      have s2: "p_publishFaceData s2 = p_publishFaceData s1"
        using fd_publish [of val key s1] p by simp
      show ?thesis
        using Inr a val p s1 s2 Cons.IH [of s2] by (cases r2) simp_all
    qed
  qed
qed

lemma fd_publish_faces:
  "p_publishFaceData (snd (publish_faces faces s)) = p_publishFaceData s"
proof (induction faces arbitrary: s)
  case Nil
  show ?case by simp
next
  case (Cons face faces)
  show ?case
  proof (cases "py_getitem face (VStr ''faceAttributes'')")
    case (Inl e)
    then show ?thesis by simp
  next
    case fa: (Inr fa)
    show ?thesis
    proof (cases "py_iter fa")
      case (Inl e)
      with fa show ?thesis by simp
    next
      case (Inr keys)
      obtain r1 s1 where a: "publish_attrs fa keys s = (r1, s1)"
        by (cases "publish_attrs fa keys s")
      have "p_publishFaceData s1 = p_publishFaceData s"
        using fd_publish_attrs [of fa keys s] a by simp
      then show ?thesis
        using fa Inr a Cons.IH [of s1] by (cases r1) simp_all
    qed
  qed
qed

lemma fd_publish_face_values:
  "p_publishFaceData (snd (publish_face_values m s)) = p_publishFaceData s"
proof -
  obtain r1 s1 where a: "publish_face_values_try m s = (r1, s1)"
    by (cases "publish_face_values_try m s")
  have "p_publishFaceData (snd (publish_face_values_try m s)) = p_publishFaceData s"
    by (simp add: publish_face_values_try_def fd_publish_faces split: sum.splits)
  with a have "p_publishFaceData s1 = p_publishFaceData s"
    by simp
  then show ?thesis
    using a by (cases r1) (simp_all add: publish_face_values_def logger_def)
qed

lemma fd_send_message:
  "p_publishFaceData (snd (send_message m s)) = p_publishFaceData s"
  by (simp add: send_message_def publish_json_message_def fd_publish fd_publish_face_values
      split: option.splits bool.splits)

lemma fd_process_queue_message:
  "p_publishFaceData (process_queue_message s) = p_publishFaceData s"
proof (cases "inQueue s")
  case Nil
  then show ?thesis
    by (simp add: process_queue_message_def process_queue_try_def queue_get_def logger_def)
next
  case (Cons msg rest)
  show ?thesis
  proof (cases msg)
    case None
    with Cons show ?thesis
      by (simp add: process_queue_message_def process_queue_try_def queue_get_def)
  next
    case (Some m)
    obtain r1 s1 where a: "send_message m (s\<lparr>inQueue := rest\<rparr>) = (r1, s1)"
      by (cases "send_message m (s\<lparr>inQueue := rest\<rparr>)")
    have "p_publishFaceData s1 = p_publishFaceData s"
      using fd_send_message [of m "s\<lparr>inQueue := rest\<rparr>"] a by simp
    then show ?thesis
      using Cons Some a
      by (cases r1)
        (simp_all add: process_queue_message_def process_queue_try_def queue_get_def logger_def
          shutdown_def time_sleep_def)
  qed
qed

lemma fd_callbacks: "p_publishFaceData (snd (callbacks evs s)) = p_publishFaceData s"
proof (induction evs arbitrary: s)
  case Nil
  show ?case by simp
next
  case (Cons ev evs)
  show ?case
    using Cons.IH
    by (cases ev)
      (simp_all add: on_connect_def on_disconnect_def on_message_def handle_reconnect_def
        logger_def Let_def)
qed

lemma fd_process_queue_body:
  "p_publishFaceData (snd (process_queue_body it s)) = p_publishFaceData s"
proof -
  obtain r1 s1 where a: "client_loop 1 (events it) s = (r1, s1)"
    by (cases "client_loop 1 (events it) s")
  have "p_publishFaceData (snd (client_loop 1 (events it) s)) = p_publishFaceData s"
    by (simp add: client_loop_def client_def fd_callbacks)
  with a have "p_publishFaceData s1 = p_publishFaceData s"
    by simp
  then show ?thesis
    using a
    by (cases r1)
      (simp_all add: process_queue_body_def Let_def time_sleep_def fd_process_queue_message)
qed

lemma fd_process_queue:
  "p_publishFaceData (snd (process_queue its s)) = p_publishFaceData s"
proof (induction its arbitrary: s)
  case Nil
  show ?case by simp
next
  case (Cons it its)
  obtain r1 s1 where a: "process_queue_body it s = (r1, s1)"
    by (cases "process_queue_body it s")
  have "p_publishFaceData s1 = p_publishFaceData s"
    using fd_process_queue_body [of it s] a by simp
  then show ?case
    using a Cons.IH [of s1] by (cases r1) simp_all
qed

lemma fd_run: "p_publishFaceData (snd (run env s)) = p_publishFaceData s"
proof -
  obtain r1 s1 where c: "check_ss_version s = (r1, s1)" by (cases "check_ss_version s")
  have s1: "p_publishFaceData s1 = p_publishFaceData s"
    using c by (auto simp: check_ss_version_def logger_def Let_def split: sum.splits if_splits)
  show ?thesis
  proof (cases r1)
    case (Inl e)
    with c s1 show ?thesis by (simp add: run_def)
  next
    case (Inr ok)
    obtain r2 s2 where
      k: "connect (connect_failure env) (logger INFO ''Running MQTT'' [] s1) = (r2, s2)"
      by (cases "connect (connect_failure env) (logger INFO ''Running MQTT'' [] s1)")
    have s2: "p_publishFaceData s2 = p_publishFaceData s"
      using k s1 by (auto simp: connect_def logger_def client_def split: if_splits option.splits)
    obtain r3 s3 where q: "process_queue (turns env) (s2\<lparr>alive := True\<rparr>) = (r3, s3)"
      by (cases "process_queue (turns env) (s2\<lparr>alive := True\<rparr>)")
    have s3: "p_publishFaceData s3 = p_publishFaceData s"
      using fd_process_queue [of "turns env" "s2\<lparr>alive := True\<rparr>"] q s2 by simp
    show ?thesis
      using c Inr k q s1 s2 s3
      by (cases r2; cases r3) (simp_all add: run_def)
  qed
qed

text \<open>
  C6. \<^verbatim>\<open>__init__\<close> does not assign \<^verbatim>\<open>_publishFaceData\<close> and \<^verbatim>\<open>run\<close> leaves
  it as it is; with publish-as-JSON false and the attribute missing, a message that is not
  the shutdown command, taken from the queue while connected, raises
  \<^verbatim>\<open>AttributeError\<close>, which the handler of the loop logs, and no call is made on the
  client.
\<close>

theorem publishFaceData_attribute_error:
  "p_publishFaceData (init b mc v q) = None \<and>
   p_publishFaceData (snd (run env s)) = p_publishFaceData s \<and>
   (inQueue s = Some m # rest \<and> mqttConnected s \<and> \<not> p_publishJson s \<and>
    p_publishFaceData s = None \<and> upper (topic m) \<noteq> ''SHUTDOWN'' \<longrightarrow>
    process_queue_message s =
      logger ERROR ''MQTT unable to read queue : %s '' [AErr (AttributeError ''_publishFaceData'')]
        (s\<lparr>inQueue := rest\<rparr>))"
  by (simp add: fd_run init_def process_queue_message_def process_queue_try_def queue_get_def
      send_message_def)

text \<open>C6 on the example instance with publish-as-JSON switched off.\<close>

theorem publishFaceData_attribute_error_witness:
  "mqttConnected (queued (example_message ''face'' (VDict [])) (example_connected\<lparr>p_publishJson := False\<rparr>)) \<and>
   \<not> p_publishJson (queued (example_message ''face'' (VDict [])) (example_connected\<lparr>p_publishJson := False\<rparr>)) \<and>
   p_publishFaceData (queued (example_message ''face'' (VDict [])) (example_connected\<lparr>p_publishJson := False\<rparr>)) = None \<and>
   p_client (process_queue_message
      (queued (example_message ''face'' (VDict [])) (example_connected\<lparr>p_publishJson := False\<rparr>)))
     = [UsernamePwSet ''user'' ''secret''] \<and>
   log (process_queue_message
      (queued (example_message ''face'' (VDict [])) (example_connected\<lparr>p_publishJson := False\<rparr>)))
     = [(ERROR, ''MQTT unable to read queue : %s '', [AErr (AttributeError ''_publishFaceData'')])]"
  using publishFaceData_attribute_error
    [of _ _ _ _ _ "queued (example_message ''face'' (VDict [])) (example_connected\<lparr>p_publishJson := False\<rparr>)"
        "example_message ''face'' (VDict [])" "[]"]
  by (simp add: example_defs upper_examples logger_def)

subsection \<open>Publishing face values\<close>


text \<open>The example of the specification: two attributes, two calls, in order.\<close>

lemma publish_face_values_age_gender:
  "publish_face_values
     (example_message ''face''
        (VDict [(''predictions'', VList [VDict [(''faceAttributes'',
             VDict [(''age'', VInt 30), (''gender'', VStr ''male'')])]])]))
     example_connected
   = (Inr (), example_connected\<lparr>p_client := p_client example_connected @
        [Publish (FeedPath ''user'' (VStr ''age'')) (VInt 30),
         Publish (FeedPath ''user'' (VStr ''gender'')) (VStr ''male'')]\<rparr>)"
  by (simp add: publish_face_values_def publish_face_values_try_def attr_value_def publish_def
      default_feed_def client_def example_defs)




subsection \<open>Messages taken while disconnected\<close>

text \<open>
  C8. Whatever is taken from the queue while \<open>mqttConnected\<close> is false is dropped: the
  queue has lost it, and nothing else has changed, so no call is made on the client and
  the message is not put back.
\<close>

theorem disconnected_message_dropped:
  "inQueue s = msg # rest \<Longrightarrow> \<not> mqttConnected s \<Longrightarrow>
   process_queue_message s = s\<lparr>inQueue := rest\<rparr>"
  by (simp add: process_queue_message_def process_queue_try_def queue_get_def
      split: option.splits)

text \<open>C8 on the example instance before the broker has acknowledged.\<close>

theorem disconnected_message_dropped_witness:
  "\<not> mqttConnected (queued (example_message ''face'' (VDict [])) example_state) \<and>
   process_queue_message (queued (example_message ''face'' (VDict [])) example_state)
     = example_state"
  using disconnected_message_dropped
    [of "queued (example_message ''face'' (VDict [])) example_state"
        "Some (example_message ''face'' (VDict []))" "[]"]
  by (simp add: example_defs)

subsection \<open>The version gate\<close>



subsection \<open>The image predictor\<close>

text \<open>The result holds one of the two keys, and an invalid key gives the error.\<close>

lemma get_prediction_keys:
  "map fst (fst (get_prediction self post imageBytes)) = [''predictions''] \<or>
   map fst (fst (get_prediction self post imageBytes)) = [''error'']"
  by (cases "p_get_prediction self post imageBytes" rule: prod.exhaust)
     (auto simp: get_prediction_def split: sum.splits)

lemma get_prediction_invalid_key:
  "length (p_subscriptionKey self) < 10 \<Longrightarrow>
   fst (get_prediction self post imageBytes) =
     [(''error'',
       VStr (''Azure subscription key - '' @ p_subscriptionKey self @ '' - is not valid''))]"
  by (simp add: get_prediction_def p_get_prediction_def)

text \<open>
  C10 (the code departs from the claim). The claim: when the REST call fails, by an
  invalid subscription key or by a response other than 200, the result carries an error
  string and no predictions. The code: for a response other than 200 the
  \<^verbatim>\<open>ValueError\<close> is caught inside \<^verbatim>\<open>_get_prediction\<close>, which then returns
  \<^verbatim>\<open>None\<close>, and the result is \<^verbatim>\<open>{'predictions': None}\<close> with no error.
\<close>

theorem get_prediction_non_200:
  "10 \<le> length (p_subscriptionKey self) \<Longrightarrow> post (api_url self) imageBytes = Inr r \<Longrightarrow>
   status_code r \<noteq> 200 \<Longrightarrow>
   fst (get_prediction self post imageBytes) = [(''predictions'', VNone)]"
  by (simp add: get_prediction_def p_get_prediction_def request_try_def)

text \<open>C10 at a valid key and a response 404.\<close>

theorem get_prediction_non_200_witness:
  "10 \<le> length (p_subscriptionKey example_predictor) \<and>
   not_found (api_url example_predictor) ''image'' = Inr example_response \<and>
   status_code example_response \<noteq> 200 \<and>
   fst (get_prediction example_predictor not_found ''image'') = [(''predictions'', VNone)]"
  using get_prediction_non_200 [of example_predictor not_found "''image''" example_response]
  by (simp add: example_predictor_def init_predictor_def example_response_def not_found_def)

end
